theory Spec2Isabelle
  imports Main
begin

section \<open>JavaScript values\<close>

text \<open>
  Transaction metadata and the \<open>code\<close> entry of a node spec are untyped at run time.
  \<open>truthy\<close> is the conversion that \<open>!x\<close> and \<open>if (x)\<close> apply to such a value.
\<close>

datatype js_value =
    JUndefined
  | JNull
  | JBool bool
  | JNum int
  | JStr string
  | JObj nat

fun truthy :: "js_value \<Rightarrow> bool" where
  "truthy JUndefined = False"
| "truthy JNull = False"
| "truthy (JBool b) = b"
| "truthy (JNum n) = (n \<noteq> 0)"
| "truthy (JStr s) = (s \<noteq> [])"
| "truthy (JObj r) = True"

section \<open>The document model, as the controller observes it\<close>

text \<open>
  The document engine is an external collaborator. A node, a resolved position, a
  selection, an editor state and a view are records of exactly the properties that
  \<open>index.jsx\<close> reads from them.
\<close>

record ProseMirrorNode =
  type_name :: string          \<comment> \<open>\<open>node.type.name\<close>\<close>
  isTextblock :: bool          \<comment> \<open>\<open>node.isTextblock\<close>\<close>
  spec_code :: js_value        \<comment> \<open>\<open>node.type.spec.code\<close>\<close>
  content_size :: nat          \<comment> \<open>\<open>node.content.size\<close>\<close>
  textContent :: string        \<comment> \<open>\<open>node.textContent\<close>\<close>
  childCount :: nat            \<comment> \<open>\<open>node.childCount\<close>\<close>

record ResolvedPos =
  parent :: ProseMirrorNode
  depth :: nat

record Selection =
  anchor :: ResolvedPos        \<comment> \<open>\<open>selection.$anchor\<close>\<close>
  dollar_to :: ResolvedPos     \<comment> \<open>\<open>selection.$to\<close>\<close>
  empty_sel :: bool            \<comment> \<open>\<open>selection.empty\<close>\<close>
  from_pos :: nat              \<comment> \<open>\<open>selection.from\<close>\<close>
  to_pos :: nat                \<comment> \<open>\<open>selection.to\<close>\<close>

record PluginState =
  showFloatingMenu :: js_value

record EditorState =
  doc :: ProseMirrorNode
  selection :: Selection
  floatingMenuKey_getState :: PluginState   \<comment> \<open>\<open>floatingMenuKey.getState(state)\<close>\<close>

type_synonym dom_node = nat

record EditorView =
  state :: EditorState
  composing :: bool
  hasFocus :: bool             \<comment> \<open>\<open>view.hasFocus()\<close>\<close>
  view_dom :: dom_node         \<comment> \<open>\<open>view.dom\<close>\<close>

datatype handler = H_mousedown | H_keydown | H_focus | H_blur | H_tippyBlur

text \<open>
  The editor object. \<open>schema_getText ed node\<close> stands for the expression
  \<open>getText(node, { textSerializers: getTextSerializersFromSchema(editor.schema) })\<close>,
  which both \<open>isEmptyParagraph\<close> and \<open>getTextContent\<close> evaluate; \<open>getText\<close> is
  imported from the core package and is a parameter here.
\<close>

record Editor =
  schema_getText :: "ProseMirrorNode \<Rightarrow> string"
  isEditable :: bool
  options_element_attached :: bool   \<comment> \<open>\<open>!!editor.options.element.parentElement\<close>\<close>
  editor_view :: EditorView          \<comment> \<open>\<open>editor.view\<close>\<close>
  callbacks :: "(string \<times> handler) list"   \<comment> \<open>registrations made with \<open>editor.on\<close>\<close>

section \<open>The caret-context predicates\<close>

definition isEmptyParagraph :: "ResolvedPos \<Rightarrow> Editor \<Rightarrow> bool" where
  "isEmptyParagraph pos ed =
     (let nodeParent = parent pos in
      if type_name nodeParent = ''paragraph'' \<and> content_size nodeParent = 0
           \<and> \<not> truthy (JStr (schema_getText ed nodeParent))
      then True
      else False)"

definition getTextContent :: "Editor \<Rightarrow> ProseMirrorNode \<Rightarrow> string" where
  "getTextContent this_editor node = schema_getText this_editor node"

text \<open>The local constant \<open>isEmptyTextBlock\<close> of the default \<open>shouldShow\<close>.\<close>

definition isEmptyTextBlock :: "Editor \<Rightarrow> ResolvedPos \<Rightarrow> bool" where
  "isEmptyTextBlock this_editor a =
     (isTextblock (parent a) \<and> \<not> truthy (spec_code (parent a))
      \<and> \<not> truthy (JStr (textContent (parent a))) \<and> childCount (parent a) = 0
      \<and> \<not> truthy (JStr (getTextContent this_editor (parent a))))"

record ShouldShowProps =
  p_editor :: Editor
  p_view :: EditorView
  p_state :: EditorState
  p_oldState :: "EditorState option"

text \<open>
  The default \<open>shouldShow\<close> of the view class. It reads \<open>this.editor\<close>; its only caller,
  \<open>update\<close>, passes that same object as \<open>editor\<close> in the argument, from where the model
  takes it.
\<close>

definition shouldShow_default :: "ShouldShowProps \<Rightarrow> bool" where
  "shouldShow_default props =
     (let view = p_view props;
          sel = selection (p_state props);
          isRootDepth = (depth (anchor sel) = 1);
          emptyTextBlock = isEmptyTextBlock (p_editor props) (anchor sel)
      in if \<not> hasFocus view \<or> \<not> empty_sel sel \<or> \<not> isRootDepth \<or> \<not> emptyTextBlock
            \<or> \<not> isEditable (p_editor props)
         then False
         else True)"

section \<open>The plugin state and its reducer\<close>

type_synonym plugin_key = string

definition floatingMenuKey :: plugin_key where
  "floatingMenuKey = ''floatingMenuKey''"

record Transaction =
  meta :: "plugin_key \<rightharpoonup> js_value"

definition getMeta :: "Transaction \<Rightarrow> plugin_key \<Rightarrow> js_value" where
  "getMeta tr k = (case meta tr k of None \<Rightarrow> JUndefined | Some v \<Rightarrow> v)"

definition setMeta :: "Transaction \<Rightarrow> plugin_key \<Rightarrow> js_value \<Rightarrow> Transaction" where
  "setMeta tr k v = tr\<lparr>meta := (meta tr)(k \<mapsto> v)\<rparr>"

definition plugin_state_init :: PluginState where
  "plugin_state_init = \<lparr>showFloatingMenu = JBool False\<rparr>"

text \<open>
  \<open>state.apply\<close>. The engine always passes both states, as the parameter types say;
  \<open>doc.eq\<close> and \<open>selection.eq\<close> are structural equality.
\<close>

definition plugin_state_apply ::
    "Transaction \<Rightarrow> PluginState \<Rightarrow> EditorState \<Rightarrow> EditorState \<Rightarrow> PluginState" where
  "plugin_state_apply tr val oldState newState =
     (let m = getMeta tr floatingMenuKey in
      if m \<noteq> JUndefined then \<lparr>showFloatingMenu = m\<rparr>
      else
        let isSameDoc = (doc oldState = doc newState);
            isSameSelection = (selection oldState = selection newState)
        in if isSameDoc \<and> isSameSelection then \<lparr>showFloatingMenu = JBool False\<rparr>
           else \<lparr>showFloatingMenu = JBool False\<rparr>)"

section \<open>DOM listeners, the overlay instance and the controller\<close>

text \<open>
  A DOM listener is identified by its event type, its callback and its capture flag:
  \<open>removeEventListener\<close> removes a registration only when all three match.
\<close>

type_synonym listener = "string \<times> handler \<times> bool"

definition addEventListener :: "listener list \<Rightarrow> listener \<Rightarrow> listener list" where
  "addEventListener ls l = (if l \<in> set ls then ls else ls @ [l])"

definition removeEventListener :: "listener list \<Rightarrow> listener \<Rightarrow> listener list" where
  "removeEventListener ls l = removeAll l ls"

text \<open>
  Modelled from the spec: the editor's lifecycle event subscription and unsubscription
  for named events (\<open>editor.on\<close>, \<open>editor.off\<close>), whose code is in the core package.
\<close>

definition editor_on :: "Editor \<Rightarrow> string \<Rightarrow> handler \<Rightarrow> Editor" where
  "editor_on ed ev fn = ed\<lparr>callbacks := callbacks ed @ [(ev, fn)]\<rparr>"

definition editor_off :: "Editor \<Rightarrow> string \<Rightarrow> handler \<Rightarrow> Editor" where
  "editor_off ed ev fn = ed\<lparr>callbacks := removeAll (ev, fn) (callbacks ed)\<rparr>"

datatype RectSource =
    ConfiguredRect nat          \<comment> \<open>\<open>tippyOptions.getReferenceClientRect\<close>\<close>
  | PosToDOMRect nat nat        \<comment> \<open>\<open>() => posToDOMRect(view, from, to)\<close>\<close>

datatype tippy_call = Call_setProps RectSource | Call_show | Call_hide | Call_destroy

text \<open>
  The overlay library is a black box: an instance is the sequence of calls it has
  received, together with the listeners on \<open>popper.firstChild\<close> when the popper has a
  first child.
\<close>

record Instance =
  calls :: "tippy_call list"
  popper_firstChild :: "listener list option"

record TippyProps =
  getReferenceClientRect :: "RectSource option"

record HTMLElement =
  node_id :: dom_node
  listeners :: "listener list"
  removed :: bool               \<comment> \<open>\<open>element.remove()\<close> has been called\<close>
  style_visibility :: string

datatype task = Task_update | Task_show_timeout | Task_show_frame

datatype external_call = Commands_focus | Commands_blur | Textarea_focus

record FloatingMenuView =
  editor :: Editor
  element :: HTMLElement
  view :: EditorView
  preventHide :: bool
  forceHide :: bool
  tippy :: "Instance option"
  visible :: bool
  tippyOptions :: TippyProps
  shouldShow :: "ShouldShowProps \<Rightarrow> bool"
  console :: "string list"                  \<comment> \<open>first argument of each \<open>console.log\<close>\<close>
  scheduled :: "task list"                  \<comment> \<open>callbacks handed to \<open>setTimeout\<close> and \<open>requestAnimationFrame\<close>\<close>
  external_calls :: "external_call list"    \<comment> \<open>calls of editor commands and of \<open>textarea.focus\<close>\<close>

record FloatingMenuPluginProps =
  pluginKey :: string
  opt_editor :: Editor
  opt_element :: HTMLElement
  opt_tippyOptions :: "TippyProps option"
  opt_shouldShow :: "(ShouldShowProps \<Rightarrow> bool) option"

record FloatingMenuViewProps = FloatingMenuPluginProps +
  opt_view :: EditorView

definition FloatingMenuView_new :: "FloatingMenuViewProps \<Rightarrow> FloatingMenuView" where
  "FloatingMenuView_new props =
     \<lparr>editor = editor_on (editor_on (opt_editor props) ''focus'' H_focus) ''blur'' H_blur,
      element = (opt_element props)
        \<lparr>listeners :=
           addEventListener
             (addEventListener (listeners (opt_element props)) (''mousedown'', H_mousedown, True))
             (''keydown'', H_keydown, False),
         removed := True,
         style_visibility := ''visible''\<rparr>,
      view = opt_view props,
      preventHide = False,
      forceHide = False,
      tippy = None,
      visible = False,
      tippyOptions =
        (case opt_tippyOptions props of
           None \<Rightarrow> \<lparr>getReferenceClientRect = None\<rparr>
         | Some t \<Rightarrow> t),
      shouldShow =
        (case opt_shouldShow props of
           None \<Rightarrow> shouldShow_default
         | Some f \<Rightarrow> f),
      console = [],
      scheduled = [],
      external_calls = []\<rparr>"

definition show_overlay :: "FloatingMenuView \<Rightarrow> FloatingMenuView" where
  "show_overlay s = s\<lparr>tippy := map_option (\<lambda>t. t\<lparr>calls := calls t @ [Call_show]\<rparr>) (tippy s)\<rparr>"

definition hide :: "FloatingMenuView \<Rightarrow> FloatingMenuView" where
  "hide s = s\<lparr>tippy := map_option (\<lambda>t. t\<lparr>calls := calls t @ [Call_hide]\<rparr>) (tippy s)\<rparr>"

definition setProps :: "RectSource \<Rightarrow> FloatingMenuView \<Rightarrow> FloatingMenuView" where
  "setProps r s = s\<lparr>tippy := map_option (\<lambda>t. t\<lparr>calls := calls t @ [Call_setProps r]\<rparr>) (tippy s)\<rparr>"

definition mousedownHandler :: "FloatingMenuView \<Rightarrow> FloatingMenuView" where
  "mousedownHandler s = s\<lparr>console := console s @ [''mousedownHandler ''], preventHide := True\<rparr>"

definition keydownHandler :: "string \<Rightarrow> FloatingMenuView \<Rightarrow> FloatingMenuView" where
  "keydownHandler key s =
     (if key = ''Escape''
      then (hide (s\<lparr>preventHide := True\<rparr>))
             \<lparr>external_calls := external_calls s @ [Commands_focus]\<rparr>
      else s)"

definition focusHandler :: "FloatingMenuView \<Rightarrow> FloatingMenuView" where
  "focusHandler s = s\<lparr>scheduled := scheduled s @ [Task_update]\<rparr>"

record FocusEvent =
  relatedTarget :: "dom_node option"

text \<open>The DOM tree at the time of an event: parent links and the \<open>contains\<close> relation.\<close>

record Dom =
  parentNode :: "dom_node \<Rightarrow> dom_node option"
  contains :: "dom_node \<Rightarrow> dom_node \<Rightarrow> bool"

definition blurHandler :: "Dom \<Rightarrow> FocusEvent option \<Rightarrow> FloatingMenuView \<Rightarrow> FloatingMenuView" where
  "blurHandler d event s =
     (if preventHide s then s\<lparr>preventHide := False\<rparr>
      else if (case event of
                 None \<Rightarrow> False
               | Some e \<Rightarrow>
                   (case relatedTarget e of
                      None \<Rightarrow> False
                    | Some t \<Rightarrow>
                        (case parentNode d (node_id (element s)) of
                           None \<Rightarrow> False
                         | Some p \<Rightarrow> contains d p t)))
      then s
      else if (case event of
                 None \<Rightarrow> False
               | Some e \<Rightarrow> relatedTarget e = Some (view_dom (editor_view (editor s))))
      then s
      else hide s)"

definition tippyBlurHandler :: "Dom \<Rightarrow> FocusEvent \<Rightarrow> FloatingMenuView \<Rightarrow> FloatingMenuView" where
  "tippyBlurHandler d event s = blurHandler d (Some event) s"

text \<open>
  \<open>createTooltip\<close>. Its first argument is the instance that the library's factory
  returns when it is called.
\<close>

definition createTooltip :: "Instance \<Rightarrow> FloatingMenuView \<Rightarrow> FloatingMenuView" where
  "createTooltip fresh s =
     (let editorIsAttached = options_element_attached (editor s) in
      if tippy s \<noteq> None \<or> \<not> editorIsAttached then s
      else s\<lparr>tippy := Some
             (case popper_firstChild fresh of
                None \<Rightarrow> fresh
              | Some ls \<Rightarrow>
                  fresh\<lparr>popper_firstChild :=
                          Some (addEventListener ls (''blur'', H_tippyBlur, False))\<rparr>)\<rparr>)"

text \<open>The callbacks \<open>onShow\<close> and \<open>onHidden\<close> given to the library, and the two deferred steps.\<close>

definition onShow :: "FloatingMenuView \<Rightarrow> FloatingMenuView" where
  "onShow s = s\<lparr>visible := True, scheduled := scheduled s @ [Task_show_timeout]\<rparr>"

definition onShow_timeout :: "FloatingMenuView \<Rightarrow> FloatingMenuView" where
  "onShow_timeout s =
     s\<lparr>preventHide := True,
       external_calls := external_calls s @ [Commands_blur],
       scheduled := scheduled s @ [Task_show_frame]\<rparr>"

definition onShow_frame :: "bool \<Rightarrow> FloatingMenuView \<Rightarrow> FloatingMenuView" where
  "onShow_frame textarea_exists s =
     s\<lparr>preventHide := False,
       external_calls :=
         external_calls s @ (if textarea_exists then [Textarea_focus] else [])\<rparr>"

definition onHidden :: "FloatingMenuView \<Rightarrow> FloatingMenuView" where
  "onHidden s = s\<lparr>visible := False\<rparr>"

definition update ::
    "Instance \<Rightarrow> EditorView \<Rightarrow> EditorState option \<Rightarrow> FloatingMenuView \<Rightarrow> FloatingMenuView" where
  "update fresh v oldState s =
     (let st = state v;
          sel = selection st
      in if composing v \<or> visible s then s\<lparr>console := console s @ [''update '']\<rparr>
         else
           let s1 = createTooltip fresh s;
               should =
                 shouldShow s1 \<lparr>p_editor = editor s1, p_view = v, p_state = st, p_oldState = oldState\<rparr>
           in if \<not> should then hide s1
              else show_overlay
                     (setProps
                        (case getReferenceClientRect (tippyOptions s1) of
                           Some r \<Rightarrow> r
                         | None \<Rightarrow> PosToDOMRect (from_pos sel) (to_pos sel))
                        s1))"

text \<open>The callback that \<open>focusHandler\<close> hands to \<open>setTimeout\<close>.\<close>

definition focusHandler_timeout :: "Instance \<Rightarrow> FloatingMenuView \<Rightarrow> FloatingMenuView" where
  "focusHandler_timeout fresh s = update fresh (editor_view (editor s)) None s"

definition destroy :: "FloatingMenuView \<Rightarrow> FloatingMenuView" where
  "destroy s =
     (let t1 =
            (case tippy s of
               None \<Rightarrow> None
             | Some t \<Rightarrow>
                 (case popper_firstChild t of
                    None \<Rightarrow> Some t
                  | Some ls \<Rightarrow>
                      Some (t\<lparr>popper_firstChild :=
                                Some (removeEventListener ls (''blur'', H_tippyBlur, False))\<rparr>)));
          t2 = map_option (\<lambda>t. t\<lparr>calls := calls t @ [Call_destroy]\<rparr>) t1
      in s\<lparr>tippy := t2,
           preventHide := False,
           visible := False,
           element := (element s)
             \<lparr>listeners :=
                removeEventListener
                  (removeEventListener (listeners (element s)) (''mousedown'', H_mousedown, True))
                  (''keydown'', H_keydown, False)\<rparr>,
           editor := editor_off (editor_off (editor s) ''focus'' H_focus) ''blur'' H_blur\<rparr>)"

section \<open>The plugin: view factory and gate\<close>

text \<open>
  The wrapper that \<open>FloatingMenuPlugin\<close> passes as \<open>shouldShow\<close>. It takes no argument
  and reads the \<open>view\<close> captured by the factory; that is the view object which the
  engine passes to \<open>update\<close>, so the model reads it from the argument.
\<close>

definition plugin_shouldShow :: "FloatingMenuPluginProps \<Rightarrow> ShouldShowProps \<Rightarrow> bool" where
  "plugin_shouldShow options props =
     (let v = p_view props;
          sel = selection (state v);
          emptyParagraph = isEmptyParagraph (anchor sel) (opt_editor options);
          stateValue = floatingMenuKey_getState (state v)
      in if \<not> empty_sel sel \<or> \<not> emptyParagraph \<or> \<not> truthy (showFloatingMenu stateValue)
         then False
         else (case opt_shouldShow options of
                 None \<Rightarrow> True
               | Some f \<Rightarrow>
                   f \<lparr>p_editor = opt_editor options, p_view = v, p_state = state v,
                      p_oldState = None\<rparr>))"

definition FloatingMenuPlugin_view :: "FloatingMenuPluginProps \<Rightarrow> EditorView \<Rightarrow> FloatingMenuView" where
  "FloatingMenuPlugin_view options v =
     FloatingMenuView_new
       \<lparr>pluginKey = pluginKey options,
        opt_editor = opt_editor options,
        opt_element = opt_element options,
        opt_tippyOptions = opt_tippyOptions options,
        opt_shouldShow = Some (plugin_shouldShow options),
        opt_view = v\<rparr>"

section \<open>Commands and keyboard shortcuts\<close>

record CommandProps =
  cp_tr :: Transaction
  cp_dispatch :: bool                \<comment> \<open>a \<open>dispatch\<close> function is supplied\<close>
  cp_state :: EditorState
  cp_editor :: "Editor option"

text \<open>\<open>setFloatMenu\<close> returns its result and the transaction it dispatches, if any.\<close>

definition setFloatMenu :: "bool \<Rightarrow> CommandProps \<Rightarrow> bool \<times> Transaction option" where
  "setFloatMenu vis props =
     (True,
      if cp_dispatch props then Some (setMeta (cp_tr props) floatingMenuKey (JBool vis))
      else None)"

datatype command_call = Commands_setFloatMenu bool

text \<open>
  Modelled from the spec: command execution, whose code is in the core package, returns
  the success or failure that the command's callback returns. So a shortcut returns the
  result of its callback; the second component lists the commands the callback invokes
  on \<open>editor.commands\<close>.
\<close>

definition shortcut_Space :: "CommandProps \<Rightarrow> bool \<times> command_call list" where
  "shortcut_Space props =
     (case cp_editor props of
        None \<Rightarrow> (False, [])
      | Some ed \<Rightarrow>
          if isEmptyParagraph (dollar_to (selection (cp_state props))) ed
          then (True, [Commands_setFloatMenu True])
          else (False, []))"

definition shortcut_Escape :: "CommandProps \<Rightarrow> bool \<times> command_call list" where
  "shortcut_Escape props =
     (case cp_editor props of
        None \<Rightarrow> (False, [])
      | Some ed \<Rightarrow> (True, [Commands_setFloatMenu False]))"

section \<open>The caret-context predicate as specified\<close>

text \<open>
  The specification's caret-context predicate, in its own words: the enclosing node is a
  plain textblock, declares no code behaviour, has empty text content, has zero child
  nodes, and its schema-aware plain-text serialization is empty.
\<close>

definition caret_context_spec :: "Editor \<Rightarrow> ResolvedPos \<Rightarrow> bool" where
  "caret_context_spec ed pos =
     (isTextblock (parent pos) \<and> \<not> truthy (spec_code (parent pos))
      \<and> textContent (parent pos) = [] \<and> childCount (parent pos) = 0
      \<and> schema_getText ed (parent pos) = [])"

section \<open>Concrete inputs\<close>

text \<open>
  The demo of the repository: a document whose caret sits in an empty block at the root,
  an editable and attached editor without custom text serializers, a menu element, and
  the plugin options of the demo, which supply no \<open>shouldShow\<close>.
\<close>

definition empty_block :: "string \<Rightarrow> ProseMirrorNode" where
  "empty_block name =
     \<lparr>type_name = name, isTextblock = True, spec_code = JUndefined, content_size = 0,
      textContent = [], childCount = 0\<rparr>"

definition doc_with_one_block :: ProseMirrorNode where
  "doc_with_one_block =
     \<lparr>type_name = ''doc'', isTextblock = False, spec_code = JUndefined, content_size = 2,
      textContent = [], childCount = 1\<rparr>"

definition caret_in :: "ProseMirrorNode \<Rightarrow> ResolvedPos" where
  "caret_in n = \<lparr>parent = n, depth = 1\<rparr>"

definition caret_state :: "ProseMirrorNode \<Rightarrow> js_value \<Rightarrow> EditorState" where
  "caret_state n flag =
     \<lparr>doc = doc_with_one_block,
      selection = \<lparr>anchor = caret_in n, dollar_to = caret_in n, empty_sel = True,
                   from_pos = 1, to_pos = 1\<rparr>,
      floatingMenuKey_getState = \<lparr>showFloatingMenu = flag\<rparr>\<rparr>"

definition caret_view :: "ProseMirrorNode \<Rightarrow> js_value \<Rightarrow> EditorView" where
  "caret_view n flag =
     \<lparr>state = caret_state n flag, composing = False, hasFocus = True, view_dom = 0\<rparr>"

definition demo_editor :: Editor where
  "demo_editor =
     \<lparr>schema_getText = textContent, isEditable = True, options_element_attached = True,
      editor_view = caret_view (empty_block ''paragraph'') (JBool False), callbacks = []\<rparr>"

definition demo_element :: HTMLElement where
  "demo_element = \<lparr>node_id = 1, listeners = [], removed = False, style_visibility = ''hidden''\<rparr>"

definition demo_options :: FloatingMenuPluginProps where
  "demo_options =
     \<lparr>pluginKey = ''floatingMenu'', opt_editor = demo_editor, opt_element = demo_element,
      opt_tippyOptions = Some \<lparr>getReferenceClientRect = None\<rparr>, opt_shouldShow = None\<rparr>"

definition demo_instance :: Instance where
  "demo_instance = \<lparr>calls = [], popper_firstChild = Some []\<rparr>"

text \<open>
  A DOM for the blur handler: node 0 is the DOM element of the editor's view, node 1 the
  menu element, node 2 the overlay host that contains it, node 3 the text area inside
  the menu element; any other node is outside the overlay.
\<close>

definition demo_dom :: Dom where
  "demo_dom =
     \<lparr>parentNode = (\<lambda>n. if n = 1 then Some 2 else if n = 3 then Some 1 else None),
      contains = (\<lambda>p t. t = p \<or> (p = 2 \<and> (t = 1 \<or> t = 3)) \<or> (p = 1 \<and> t = 3))\<rparr>"

text \<open>
  The controller as the plugin builds it, and the controller after an update cycle has
  shown the overlay and the overlay library has called \<open>onShow\<close>.
\<close>

definition demo_controller :: FloatingMenuView where
  "demo_controller =
     FloatingMenuPlugin_view demo_options (caret_view (empty_block ''paragraph'') (JBool False))"

definition shown_controller :: FloatingMenuView where
  "shown_controller =
     onShow (update demo_instance (caret_view (empty_block ''paragraph'') (JBool True)) None
               demo_controller)"

definition command_props_in :: "ProseMirrorNode \<Rightarrow> CommandProps" where
  "command_props_in n =
     \<lparr>cp_tr = \<lparr>meta = Map.empty\<rparr>, cp_dispatch = True, cp_state = caret_state n (JBool False),
      cp_editor = Some demo_editor\<rparr>"

section \<open>Facts about the concrete inputs\<close>

lemma createTooltip_keeps:
  "shouldShow (createTooltip fresh s) = shouldShow s
   \<and> tippyOptions (createTooltip fresh s) = tippyOptions s
   \<and> editor (createTooltip fresh s) = editor s"
  by (simp add: createTooltip_def Let_def)

lemma demo_controller_eval:
  "listeners (element demo_controller)
     = [(''mousedown'', H_mousedown, True), (''keydown'', H_keydown, False)]
   \<and> callbacks (editor demo_controller) = [(''focus'', H_focus), (''blur'', H_blur)]
   \<and> tippy demo_controller = None"
  by (simp add: demo_controller_def FloatingMenuPlugin_view_def FloatingMenuView_new_def
      demo_options_def demo_editor_def demo_element_def editor_on_def addEventListener_def)

lemma demo_controller_gate:
  "shouldShow demo_controller = plugin_shouldShow demo_options
   \<and> \<not> visible demo_controller
   \<and> tippyOptions demo_controller = \<lparr>getReferenceClientRect = None\<rparr>
   \<and> tippy (createTooltip demo_instance demo_controller)
       = Some \<lparr>calls = [], popper_firstChild = Some [(''blur'', H_tippyBlur, False)]\<rparr>"
  by (simp add: demo_controller_def FloatingMenuPlugin_view_def FloatingMenuView_new_def
      createTooltip_def demo_options_def demo_editor_def demo_instance_def editor_on_def
      addEventListener_def Let_def)

lemma demo_gate_inputs:
  "\<not> composing (caret_view n flag)
   \<and> empty_sel (selection (state (caret_view n flag)))
   \<and> from_pos (selection (state (caret_view n flag))) = 1
   \<and> to_pos (selection (state (caret_view n flag))) = 1
   \<and> anchor (selection (state (caret_view n flag))) = caret_in n
   \<and> showFloatingMenu (floatingMenuKey_getState (state (caret_view n flag))) = flag
   \<and> opt_shouldShow demo_options = None
   \<and> opt_editor demo_options = demo_editor"
  by (simp add: caret_view_def caret_state_def demo_options_def)

lemma demo_paragraph_is_empty:
  "isEmptyParagraph (caret_in (empty_block ''paragraph'')) demo_editor"
  by (simp add: isEmptyParagraph_def caret_in_def empty_block_def demo_editor_def)


lemma shown_controller_eval:
  "tippy shown_controller
     = Some \<lparr>calls = [Call_setProps (PosToDOMRect 1 1), Call_show],
             popper_firstChild = Some [(''blur'', H_tippyBlur, False)]\<rparr>
   \<and> \<not> preventHide shown_controller \<and> visible shown_controller
   \<and> node_id (element shown_controller) = 1
   \<and> view_dom (editor_view (editor shown_controller)) = 0
   \<and> listeners (element shown_controller)
       = [(''mousedown'', H_mousedown, True), (''keydown'', H_keydown, False)]
   \<and> callbacks (editor shown_controller) = [(''focus'', H_focus), (''blur'', H_blur)]"
  by (simp add: shown_controller_def onShow_def update_def demo_controller_def
      FloatingMenuPlugin_view_def FloatingMenuView_new_def createTooltip_def
      show_overlay_def setProps_def hide_def plugin_shouldShow_def isEmptyParagraph_def
      demo_options_def demo_editor_def demo_element_def demo_instance_def caret_view_def
      caret_state_def caret_in_def empty_block_def editor_on_def addEventListener_def Let_def)

section \<open>The reducer\<close>

text \<open>
  C3, amended. \<open>init\<close> returns the flag \<open>false\<close>. \<open>apply\<close> is determined by the metadata
  under the plugin key alone: when that metadata is defined, \<open>apply\<close> returns exactly that
  value as the flag, so exactly \<open>v\<close> for a boolean \<open>v\<close>; when the key is absent or set to
  \<open>undefined\<close>, \<open>apply\<close> returns \<open>false\<close>, whatever the previous value was and whether or
  not the document or the selection changed.
\<close>

theorem visibility_reducer_amended:
  "plugin_state_init = \<lparr>showFloatingMenu = JBool False\<rparr>
   \<and> plugin_state_apply tr val oldState newState
       = \<lparr>showFloatingMenu =
            (case meta tr floatingMenuKey of
               None \<Rightarrow> JBool False
             | Some m \<Rightarrow> (if m = JUndefined then JBool False else m))\<rparr>
   \<and> (meta tr floatingMenuKey = Some (JBool v) \<longrightarrow>
        plugin_state_apply tr val oldState newState = \<lparr>showFloatingMenu = JBool v\<rparr>)
   \<and> (meta tr floatingMenuKey = Some m \<and> m \<noteq> JUndefined \<longrightarrow>
        plugin_state_apply tr val oldState newState = \<lparr>showFloatingMenu = m\<rparr>)
   \<and> (meta tr floatingMenuKey = None \<or> meta tr floatingMenuKey = Some JUndefined \<longrightarrow>
        plugin_state_apply tr val oldState newState = \<lparr>showFloatingMenu = JBool False\<rparr>)"
proof (intro conjI)
  show "plugin_state_init = \<lparr>showFloatingMenu = JBool False\<rparr>"
    by (simp add: plugin_state_init_def)
  show eq: "plugin_state_apply tr val oldState newState
       = \<lparr>showFloatingMenu =
            (case meta tr floatingMenuKey of
               None \<Rightarrow> JBool False
             | Some m \<Rightarrow> (if m = JUndefined then JBool False else m))\<rparr>"
    by (simp add: plugin_state_apply_def getMeta_def Let_def split: option.splits)
  show "meta tr floatingMenuKey = Some (JBool v) \<longrightarrow>
        plugin_state_apply tr val oldState newState = \<lparr>showFloatingMenu = JBool v\<rparr>"
    by (simp add: eq)
  show "meta tr floatingMenuKey = Some m \<and> m \<noteq> JUndefined \<longrightarrow>
        plugin_state_apply tr val oldState newState = \<lparr>showFloatingMenu = m\<rparr>"
    by (simp add: eq)
  show "meta tr floatingMenuKey = None \<or> meta tr floatingMenuKey = Some JUndefined \<longrightarrow>
        plugin_state_apply tr val oldState newState = \<lparr>showFloatingMenu = JBool False\<rparr>"
    by (auto simp: eq)
qed

theorem visibility_reducer_amended_witness:
  "meta (setMeta \<lparr>meta = Map.empty\<rparr> floatingMenuKey (JBool True)) floatingMenuKey
     = Some (JBool True)
   \<and> plugin_state_apply (setMeta \<lparr>meta = Map.empty\<rparr> floatingMenuKey (JBool True))
        \<lparr>showFloatingMenu = JBool False\<rparr>
        (caret_state (empty_block ''paragraph'') (JBool False))
        (caret_state (empty_block ''paragraph'') (JBool False))
      = \<lparr>showFloatingMenu = JBool True\<rparr>
   \<and> meta \<lparr>meta = Map.empty\<rparr> floatingMenuKey = None
   \<and> plugin_state_apply \<lparr>meta = Map.empty\<rparr> \<lparr>showFloatingMenu = JBool True\<rparr>
        (caret_state (empty_block ''paragraph'') (JBool True))
        (caret_state (empty_block ''paragraph'') (JBool True))
      = \<lparr>showFloatingMenu = JBool False\<rparr>
   \<and> meta (setMeta \<lparr>meta = Map.empty\<rparr> floatingMenuKey JUndefined) floatingMenuKey
     = Some JUndefined
   \<and> plugin_state_apply (setMeta \<lparr>meta = Map.empty\<rparr> floatingMenuKey JUndefined)
        \<lparr>showFloatingMenu = JBool True\<rparr>
        (caret_state (empty_block ''paragraph'') (JBool True))
        (caret_state (empty_block ''heading'') (JBool True))
      = \<lparr>showFloatingMenu = JBool False\<rparr>
   \<and> meta (setMeta \<lparr>meta = Map.empty\<rparr> floatingMenuKey JNull) floatingMenuKey = Some JNull
   \<and> plugin_state_apply (setMeta \<lparr>meta = Map.empty\<rparr> floatingMenuKey JNull)
        \<lparr>showFloatingMenu = JBool True\<rparr>
        (caret_state (empty_block ''paragraph'') (JBool True))
        (caret_state (empty_block ''paragraph'') (JBool True))
      = \<lparr>showFloatingMenu = JNull\<rparr>"
proof -
  have a: "meta (setMeta \<lparr>meta = Map.empty\<rparr> floatingMenuKey x) floatingMenuKey = Some x" for x
    by (simp add: setMeta_def)
  have b: "meta \<lparr>meta = Map.empty\<rparr> floatingMenuKey = None"
    by simp
  show ?thesis
    using a [of "JBool True"] a [of JUndefined] a [of JNull] b
      visibility_reducer_amended
        [where tr = "setMeta \<lparr>meta = Map.empty\<rparr> floatingMenuKey (JBool True)"
           and v = True and m = "JBool True"
           and val = "\<lparr>showFloatingMenu = JBool False\<rparr>"
           and oldState = "caret_state (empty_block ''paragraph'') (JBool False)"
           and newState = "caret_state (empty_block ''paragraph'') (JBool False)"]
      visibility_reducer_amended
        [where tr = "\<lparr>meta = Map.empty\<rparr>" and v = True and m = JNull
           and val = "\<lparr>showFloatingMenu = JBool True\<rparr>"
           and oldState = "caret_state (empty_block ''paragraph'') (JBool True)"
           and newState = "caret_state (empty_block ''paragraph'') (JBool True)"]
      visibility_reducer_amended
        [where tr = "setMeta \<lparr>meta = Map.empty\<rparr> floatingMenuKey JUndefined"
           and v = True and m = JNull
           and val = "\<lparr>showFloatingMenu = JBool True\<rparr>"
           and oldState = "caret_state (empty_block ''paragraph'') (JBool True)"
           and newState = "caret_state (empty_block ''heading'') (JBool True)"]
      visibility_reducer_amended
        [where tr = "setMeta \<lparr>meta = Map.empty\<rparr> floatingMenuKey JNull"
           and v = True and m = JNull
           and val = "\<lparr>showFloatingMenu = JBool True\<rparr>"
           and oldState = "caret_state (empty_block ''paragraph'') (JBool True)"
           and newState = "caret_state (empty_block ''paragraph'') (JBool True)"]
    by simp
qed

text \<open>
  C3 as stated does not hold. A transaction tagged with the number 1 under the plugin key
  carries no boolean under the key, and \<open>apply\<close> returns the flag 1, not \<open>false\<close>.
\<close>

theorem visibility_reducer_counterexample:
  "meta (setMeta \<lparr>meta = Map.empty\<rparr> floatingMenuKey (JNum 1)) floatingMenuKey = Some (JNum 1)
   \<and> plugin_state_apply (setMeta \<lparr>meta = Map.empty\<rparr> floatingMenuKey (JNum 1))
        \<lparr>showFloatingMenu = JBool False\<rparr>
        (caret_state (empty_block ''paragraph'') (JBool False))
        (caret_state (empty_block ''paragraph'') (JBool False))
      = \<lparr>showFloatingMenu = JNum 1\<rparr>
   \<and> plugin_state_apply (setMeta \<lparr>meta = Map.empty\<rparr> floatingMenuKey (JNum 1))
        \<lparr>showFloatingMenu = JBool False\<rparr>
        (caret_state (empty_block ''paragraph'') (JBool False))
        (caret_state (empty_block ''paragraph'') (JBool False))
      \<noteq> \<lparr>showFloatingMenu = JBool False\<rparr>"
  by (simp add: setMeta_def plugin_state_apply_def getMeta_def)



section \<open>The caret-context predicates and the default predicate\<close>

text \<open>
  C6. The default \<open>shouldShow\<close> returns true if and only if the view has focus, the
  selection is collapsed, the anchor is at depth 1, the anchor's parent is a textblock
  without a code spec, with empty text content, zero children and an empty
  serialization, and the editor is editable.
\<close>

theorem default_shouldShow_iff:
  "shouldShow_default props \<longleftrightarrow>
     hasFocus (p_view props)
     \<and> empty_sel (selection (p_state props))
     \<and> depth (anchor (selection (p_state props))) = 1
     \<and> (isTextblock (parent (anchor (selection (p_state props))))
        \<and> \<not> truthy (spec_code (parent (anchor (selection (p_state props)))))
        \<and> textContent (parent (anchor (selection (p_state props)))) = []
        \<and> childCount (parent (anchor (selection (p_state props)))) = 0
        \<and> schema_getText (p_editor props) (parent (anchor (selection (p_state props)))) = [])
     \<and> isEditable (p_editor props)"
  by (auto simp: shouldShow_default_def isEmptyTextBlock_def getTextContent_def Let_def)

theorem default_shouldShow_iff_witness:
  "shouldShow_default
     \<lparr>p_editor = demo_editor,
      p_view = caret_view (empty_block ''paragraph'') (JBool False),
      p_state = caret_state (empty_block ''paragraph'') (JBool False),
      p_oldState = None\<rparr>
   \<and> \<not> shouldShow_default
     \<lparr>p_editor = demo_editor\<lparr>isEditable := False\<rparr>,
      p_view = caret_view (empty_block ''paragraph'') (JBool False),
      p_state = caret_state (empty_block ''paragraph'') (JBool False),
      p_oldState = None\<rparr>"
  using
    default_shouldShow_iff
      [of "\<lparr>p_editor = demo_editor,
            p_view = caret_view (empty_block ''paragraph'') (JBool False),
            p_state = caret_state (empty_block ''paragraph'') (JBool False),
            p_oldState = None\<rparr>"]
    default_shouldShow_iff
      [of "\<lparr>p_editor = demo_editor\<lparr>isEditable := False\<rparr>,
            p_view = caret_view (empty_block ''paragraph'') (JBool False),
            p_state = caret_state (empty_block ''paragraph'') (JBool False),
            p_oldState = None\<rparr>"]
  by (simp add: demo_editor_def caret_view_def caret_state_def caret_in_def empty_block_def)

text \<open>
  C2, amended. There are two predicates, not one. The predicate of the default
  \<open>shouldShow\<close> is the specified one: textblock, no code spec, empty text content, zero
  children, empty serialization. The predicate of the keyboard shortcut and of the
  plugin-level gate, \<open>isEmptyParagraph\<close>, holds if and only if the enclosing node's type
  is named \<open>paragraph\<close>, its content size is 0 and its serialization is empty. The two
  agree on an enclosing node of type \<open>paragraph\<close> that is a textblock without a code
  spec, whose content size is 0 exactly when it has no children, and whose text content
  is empty when it has no children. The default \<open>shouldShow\<close> passes only if the first
  holds on the anchor; the plugin-level gate passes only if the second holds on the
  anchor; the open key succeeds exactly when the second holds on the selection end.
\<close>

theorem caret_predicates_amended:
  "(isEmptyTextBlock ed pos \<longleftrightarrow> caret_context_spec ed pos)
   \<and> (isEmptyParagraph pos ed \<longleftrightarrow>
        type_name (parent pos) = ''paragraph'' \<and> content_size (parent pos) = 0
        \<and> schema_getText ed (parent pos) = [])
   \<and> (type_name (parent pos) = ''paragraph'' \<and> isTextblock (parent pos)
        \<and> \<not> truthy (spec_code (parent pos))
        \<and> (content_size (parent pos) = 0 \<longleftrightarrow> childCount (parent pos) = 0)
        \<and> (childCount (parent pos) = 0 \<longrightarrow> textContent (parent pos) = []) \<longrightarrow>
        (isEmptyParagraph pos ed \<longleftrightarrow> isEmptyTextBlock ed pos))
   \<and> (shouldShow_default props \<longrightarrow>
        isEmptyTextBlock (p_editor props) (anchor (selection (p_state props))))
   \<and> (plugin_shouldShow options props \<longrightarrow>
        isEmptyParagraph (anchor (selection (state (p_view props)))) (opt_editor options))
   \<and> (fst (shortcut_Space cprops) \<longleftrightarrow>
        (\<exists>e. cp_editor cprops = Some e
           \<and> isEmptyParagraph (dollar_to (selection (cp_state cprops))) e))"
proof (intro conjI)
  show "isEmptyTextBlock ed pos \<longleftrightarrow> caret_context_spec ed pos"
    by (simp add: isEmptyTextBlock_def caret_context_spec_def getTextContent_def)
  show "isEmptyParagraph pos ed \<longleftrightarrow>
        type_name (parent pos) = ''paragraph'' \<and> content_size (parent pos) = 0
        \<and> schema_getText ed (parent pos) = []"
    by (simp add: isEmptyParagraph_def Let_def)
  show "type_name (parent pos) = ''paragraph'' \<and> isTextblock (parent pos)
        \<and> \<not> truthy (spec_code (parent pos))
        \<and> (content_size (parent pos) = 0 \<longleftrightarrow> childCount (parent pos) = 0)
        \<and> (childCount (parent pos) = 0 \<longrightarrow> textContent (parent pos) = []) \<longrightarrow>
        (isEmptyParagraph pos ed \<longleftrightarrow> isEmptyTextBlock ed pos)"
    by (auto simp: isEmptyTextBlock_def getTextContent_def isEmptyParagraph_def Let_def)
  show "shouldShow_default props \<longrightarrow>
        isEmptyTextBlock (p_editor props) (anchor (selection (p_state props)))"
    by (simp add: shouldShow_default_def Let_def)
  show "plugin_shouldShow options props \<longrightarrow>
        isEmptyParagraph (anchor (selection (state (p_view props)))) (opt_editor options)"
    by (simp add: plugin_shouldShow_def Let_def)
  show "fst (shortcut_Space cprops) \<longleftrightarrow>
        (\<exists>e. cp_editor cprops = Some e
           \<and> isEmptyParagraph (dollar_to (selection (cp_state cprops))) e)"
    by (simp add: shortcut_Space_def split: option.splits)
qed

theorem caret_predicates_amended_witness:
  "type_name (parent (caret_in (empty_block ''paragraph''))) = ''paragraph''
   \<and> isTextblock (parent (caret_in (empty_block ''paragraph'')))
   \<and> \<not> truthy (spec_code (parent (caret_in (empty_block ''paragraph''))))
   \<and> content_size (parent (caret_in (empty_block ''paragraph''))) = 0
   \<and> childCount (parent (caret_in (empty_block ''paragraph''))) = 0
   \<and> textContent (parent (caret_in (empty_block ''paragraph''))) = []
   \<and> isEmptyParagraph (caret_in (empty_block ''paragraph'')) demo_editor
   \<and> isEmptyTextBlock demo_editor (caret_in (empty_block ''paragraph''))
   \<and> caret_context_spec demo_editor (caret_in (empty_block ''paragraph''))"
proof -
  have h:
    "type_name (parent (caret_in (empty_block ''paragraph''))) = ''paragraph''
     \<and> isTextblock (parent (caret_in (empty_block ''paragraph'')))
     \<and> \<not> truthy (spec_code (parent (caret_in (empty_block ''paragraph''))))
     \<and> content_size (parent (caret_in (empty_block ''paragraph''))) = 0
     \<and> childCount (parent (caret_in (empty_block ''paragraph''))) = 0
     \<and> textContent (parent (caret_in (empty_block ''paragraph''))) = []
     \<and> schema_getText demo_editor (parent (caret_in (empty_block ''paragraph''))) = []"
    by (simp add: caret_in_def empty_block_def demo_editor_def)
  show ?thesis
    using h
      caret_predicates_amended
        [where pos = "caret_in (empty_block ''paragraph'')" and ed = demo_editor]
    by blast
qed

text \<open>
  C2 as stated does not hold. For a caret in an empty heading of the demo editor the
  specified predicate and the predicate of the default \<open>shouldShow\<close> are true, and
  \<open>isEmptyParagraph\<close> is false; accordingly the default \<open>shouldShow\<close> returns true there
  and the open key fails.
\<close>

theorem caret_predicates_differ:
  "caret_context_spec demo_editor (caret_in (empty_block ''heading''))
   \<and> isEmptyTextBlock demo_editor (caret_in (empty_block ''heading''))
   \<and> \<not> isEmptyParagraph (caret_in (empty_block ''heading'')) demo_editor
   \<and> shouldShow_default
        \<lparr>p_editor = demo_editor,
         p_view = caret_view (empty_block ''heading'') (JBool True),
         p_state = caret_state (empty_block ''heading'') (JBool True),
         p_oldState = None\<rparr>
   \<and> \<not> fst (shortcut_Space (command_props_in (empty_block ''heading'')))"
  by (simp add: caret_context_spec_def isEmptyTextBlock_def getTextContent_def
      isEmptyParagraph_def shouldShow_default_def shortcut_Space_def command_props_in_def
      demo_editor_def caret_view_def caret_state_def caret_in_def empty_block_def)

section \<open>The plugin-level gate\<close>



text \<open>
  C1, amended. Take a controller whose \<open>shouldShow\<close> is the plugin's wrapper, and an
  update cycle that is not skipped: no composition is in progress and the controller's
  \<open>visible\<close> is false. If the overlay instance exists or is created in this cycle, the
  cycle sets the anchor rectangle and calls \<open>show\<close> if and only if the selection is
  collapsed, the anchor's parent is an empty paragraph, the stored flag is truthy and
  the configured \<open>shouldShow\<close> returns true (or none is configured); otherwise it calls
  \<open>hide\<close>. If there is no overlay instance and none can be created, the cycle changes
  nothing.
\<close>

theorem update_gate_amended:
  assumes "\<not> composing v" and "\<not> visible s" and "shouldShow s = plugin_shouldShow options"
  shows
    "(tippy (createTooltip fresh s) = Some t \<longrightarrow>
        update fresh v oldState s =
          (createTooltip fresh s)
            \<lparr>tippy := Some
               (t\<lparr>calls := calls t @
                    (if empty_sel (selection (state v))
                        \<and> isEmptyParagraph (anchor (selection (state v))) (opt_editor options)
                        \<and> truthy (showFloatingMenu (floatingMenuKey_getState (state v)))
                        \<and> (case opt_shouldShow options of
                             None \<Rightarrow> True
                           | Some f \<Rightarrow>
                               f \<lparr>p_editor = opt_editor options, p_view = v,
                                  p_state = state v, p_oldState = None\<rparr>)
                     then [Call_setProps
                             (case getReferenceClientRect (tippyOptions s) of
                                Some r \<Rightarrow> r
                              | None \<Rightarrow>
                                  PosToDOMRect (from_pos (selection (state v)))
                                    (to_pos (selection (state v)))),
                           Call_show]
                     else [Call_hide])\<rparr>)\<rparr>)
     \<and> (tippy (createTooltip fresh s) = None \<longrightarrow> update fresh v oldState s = s)"
proof (intro conjI impI)
  assume t: "tippy (createTooltip fresh s) = Some t"
  show "update fresh v oldState s =
          (createTooltip fresh s)
            \<lparr>tippy := Some
               (t\<lparr>calls := calls t @
                    (if empty_sel (selection (state v))
                        \<and> isEmptyParagraph (anchor (selection (state v))) (opt_editor options)
                        \<and> truthy (showFloatingMenu (floatingMenuKey_getState (state v)))
                        \<and> (case opt_shouldShow options of
                             None \<Rightarrow> True
                           | Some f \<Rightarrow>
                               f \<lparr>p_editor = opt_editor options, p_view = v,
                                  p_state = state v, p_oldState = None\<rparr>)
                     then [Call_setProps
                             (case getReferenceClientRect (tippyOptions s) of
                                Some r \<Rightarrow> r
                              | None \<Rightarrow>
                                  PosToDOMRect (from_pos (selection (state v)))
                                    (to_pos (selection (state v)))),
                           Call_show]
                     else [Call_hide])\<rparr>)\<rparr>"
    using assms t createTooltip_keeps [of fresh s]
    by (auto simp: update_def plugin_shouldShow_def show_overlay_def setProps_def hide_def
        Let_def split: option.splits)
next
  assume n: "tippy (createTooltip fresh s) = None"
  then have same: "createTooltip fresh s = s"
    by (auto simp: createTooltip_def Let_def split: if_splits)
  from n same have "tippy s = None" by simp
  then show "update fresh v oldState s = s"
    using assms same
    by (simp add: update_def show_overlay_def setProps_def hide_def Let_def)
qed

theorem update_gate_amended_witness:
  "\<not> composing (caret_view (empty_block ''paragraph'') (JBool True))
   \<and> \<not> visible demo_controller
   \<and> shouldShow demo_controller = plugin_shouldShow demo_options
   \<and> tippy (createTooltip demo_instance demo_controller)
       = Some \<lparr>calls = [], popper_firstChild = Some [(''blur'', H_tippyBlur, False)]\<rparr>
   \<and> tippy (update demo_instance (caret_view (empty_block ''paragraph'') (JBool True)) None
               demo_controller)
       = Some \<lparr>calls = [Call_setProps (PosToDOMRect 1 1), Call_show],
               popper_firstChild = Some [(''blur'', H_tippyBlur, False)]\<rparr>
   \<and> tippy (update demo_instance (caret_view (empty_block ''paragraph'') (JBool False)) None
               demo_controller)
       = Some \<lparr>calls = [Call_hide],
               popper_firstChild = Some [(''blur'', H_tippyBlur, False)]\<rparr>"
proof -
  note c = demo_controller_gate
  note p = demo_paragraph_is_empty
  have shown:
    "tippy (update demo_instance (caret_view (empty_block ''paragraph'') (JBool True)) None
              demo_controller)
       = Some \<lparr>calls = [Call_setProps (PosToDOMRect 1 1), Call_show],
               popper_firstChild = Some [(''blur'', H_tippyBlur, False)]\<rparr>"
    using c p demo_gate_inputs [of "empty_block ''paragraph''" "JBool True"]
      update_gate_amended
        [where v = "caret_view (empty_block ''paragraph'') (JBool True)"
           and s = demo_controller and options = demo_options and fresh = demo_instance
           and oldState = None
           and t = "\<lparr>calls = [], popper_firstChild = Some [(''blur'', H_tippyBlur, False)]\<rparr>"]
    by simp
  have hidden:
    "tippy (update demo_instance (caret_view (empty_block ''paragraph'') (JBool False)) None
              demo_controller)
       = Some \<lparr>calls = [Call_hide],
               popper_firstChild = Some [(''blur'', H_tippyBlur, False)]\<rparr>"
    using c p demo_gate_inputs [of "empty_block ''paragraph''" "JBool False"]
      update_gate_amended
        [where v = "caret_view (empty_block ''paragraph'') (JBool False)"
           and s = demo_controller and options = demo_options and fresh = demo_instance
           and oldState = None
           and t = "\<lparr>calls = [], popper_firstChild = Some [(''blur'', H_tippyBlur, False)]\<rparr>"]
    by simp
  show ?thesis
    using c shown hidden demo_gate_inputs [of "empty_block ''paragraph''" "JBool True"]
    by simp
qed

text \<open>
  C1 as stated does not hold. First, in the demo the overlay has been shown and the
  controller's \<open>visible\<close> is true; then the flag becomes false while the selection stays
  collapsed in an empty paragraph and the default predicate holds: the update cycle is
  skipped, \<open>hide\<close> is not called and the overlay stays shown. Second, with the caret in
  an empty heading the flag is true, the selection is collapsed, the specified
  caret-context predicate and the default predicate hold, and the update cycle calls
  \<open>hide\<close>.
\<close>

theorem gate_conjunction_counterexample:
  "\<not> truthy (showFloatingMenu (floatingMenuKey_getState
        (state (caret_view (empty_block ''paragraph'') (JBool False)))))
   \<and> empty_sel (selection (state (caret_view (empty_block ''paragraph'') (JBool False))))
   \<and> caret_context_spec demo_editor
        (anchor (selection (state (caret_view (empty_block ''paragraph'') (JBool False)))))
   \<and> shouldShow_default
        \<lparr>p_editor = demo_editor,
         p_view = caret_view (empty_block ''paragraph'') (JBool False),
         p_state = state (caret_view (empty_block ''paragraph'') (JBool False)),
         p_oldState = None\<rparr>
   \<and> visible (update demo_instance (caret_view (empty_block ''paragraph'') (JBool False)) None
                 shown_controller)
   \<and> tippy (update demo_instance (caret_view (empty_block ''paragraph'') (JBool False)) None
               shown_controller)
       = Some \<lparr>calls = [Call_setProps (PosToDOMRect 1 1), Call_show],
               popper_firstChild = Some [(''blur'', H_tippyBlur, False)]\<rparr>
   \<and> truthy (showFloatingMenu (floatingMenuKey_getState
        (state (caret_view (empty_block ''heading'') (JBool True)))))
   \<and> empty_sel (selection (state (caret_view (empty_block ''heading'') (JBool True))))
   \<and> caret_context_spec demo_editor
        (anchor (selection (state (caret_view (empty_block ''heading'') (JBool True)))))
   \<and> shouldShow_default
        \<lparr>p_editor = demo_editor,
         p_view = caret_view (empty_block ''heading'') (JBool True),
         p_state = state (caret_view (empty_block ''heading'') (JBool True)),
         p_oldState = None\<rparr>
   \<and> tippy (update demo_instance (caret_view (empty_block ''heading'') (JBool True)) None
               demo_controller)
       = Some \<lparr>calls = [Call_hide],
               popper_firstChild = Some [(''blur'', H_tippyBlur, False)]\<rparr>"
proof -
  have inputs:
    "\<And>name flag.
       empty_sel (selection (state (caret_view (empty_block name) flag)))
       \<and> showFloatingMenu (floatingMenuKey_getState (state (caret_view (empty_block name) flag)))
           = flag
       \<and> caret_context_spec demo_editor
            (anchor (selection (state (caret_view (empty_block name) flag))))
       \<and> shouldShow_default
            \<lparr>p_editor = demo_editor, p_view = caret_view (empty_block name) flag,
             p_state = state (caret_view (empty_block name) flag), p_oldState = None\<rparr>"
    by (simp add: caret_view_def caret_state_def caret_in_def empty_block_def demo_editor_def
        caret_context_spec_def shouldShow_default_def isEmptyTextBlock_def getTextContent_def)
  have stays:
    "update demo_instance (caret_view (empty_block ''paragraph'') (JBool False)) None
       shown_controller
     = shown_controller\<lparr>console := console shown_controller @ [''update '']\<rparr>"
    using shown_controller_eval by (simp add: update_def Let_def)
  have heading:
    "tippy (update demo_instance (caret_view (empty_block ''heading'') (JBool True)) None
              demo_controller)
       = Some \<lparr>calls = [Call_hide],
               popper_firstChild = Some [(''blur'', H_tippyBlur, False)]\<rparr>"
    by (simp add: update_def demo_controller_def
      FloatingMenuPlugin_view_def FloatingMenuView_new_def createTooltip_def
      show_overlay_def setProps_def hide_def plugin_shouldShow_def isEmptyParagraph_def
      demo_options_def demo_editor_def demo_element_def demo_instance_def caret_view_def
      caret_state_def caret_in_def empty_block_def editor_on_def addEventListener_def Let_def)
  show ?thesis
    using inputs [of "''paragraph''" "JBool False"] inputs [of "''heading''" "JBool True"]
      stays heading shown_controller_eval
    by simp
qed

section \<open>The update cycle\<close>

text \<open>
  C5. When the view reports a composition in progress, or the controller's \<open>visible\<close>
  is already true, \<open>update\<close> only writes a line to the console: the overlay instance
  receives no call (no \<open>show\<close>, no \<open>hide\<close>, no \<open>setProps\<close>) and no field of the controller
  changes, whatever \<open>shouldShow\<close> would return.
\<close>

theorem update_skips:
  "composing v \<or> visible s \<Longrightarrow>
     update fresh v oldState s = s\<lparr>console := console s @ [''update '']\<rparr>
     \<and> tippy (update fresh v oldState s) = tippy s
     \<and> visible (update fresh v oldState s) = visible s
     \<and> preventHide (update fresh v oldState s) = preventHide s
     \<and> forceHide (update fresh v oldState s) = forceHide s"
  by (simp add: update_def Let_def)

theorem update_skips_witness:
  "composing ((caret_view (empty_block ''paragraph'') (JBool True))\<lparr>composing := True\<rparr>)
   \<and> plugin_shouldShow demo_options
        \<lparr>p_editor = demo_editor,
         p_view = (caret_view (empty_block ''paragraph'') (JBool True))\<lparr>composing := True\<rparr>,
         p_state = caret_state (empty_block ''paragraph'') (JBool True),
         p_oldState = None\<rparr>
   \<and> tippy (update demo_instance
               ((caret_view (empty_block ''paragraph'') (JBool True))\<lparr>composing := True\<rparr>)
               None demo_controller) = None
   \<and> visible shown_controller
   \<and> tippy (update demo_instance (caret_view (empty_block ''paragraph'') (JBool False)) None
               shown_controller)
       = Some \<lparr>calls = [Call_setProps (PosToDOMRect 1 1), Call_show],
               popper_firstChild = Some [(''blur'', H_tippyBlur, False)]\<rparr>"
proof -
  have a: "composing ((caret_view (empty_block ''paragraph'') (JBool True))\<lparr>composing := True\<rparr>)"
    by simp
  have b: "visible shown_controller"
    by (simp add: shown_controller_def onShow_def)
  have c: "tippy demo_controller = None"
    by (simp add: demo_controller_def FloatingMenuPlugin_view_def FloatingMenuView_new_def)
  have d: "tippy shown_controller
             = Some \<lparr>calls = [Call_setProps (PosToDOMRect 1 1), Call_show],
                     popper_firstChild = Some [(''blur'', H_tippyBlur, False)]\<rparr>"
    by (simp add: shown_controller_def onShow_def update_def demo_controller_def
        FloatingMenuPlugin_view_def FloatingMenuView_new_def createTooltip_def
        show_overlay_def setProps_def hide_def plugin_shouldShow_def isEmptyParagraph_def
        demo_options_def demo_editor_def demo_element_def demo_instance_def caret_view_def
        caret_state_def caret_in_def empty_block_def editor_on_def addEventListener_def Let_def)
  have e: "plugin_shouldShow demo_options
        \<lparr>p_editor = demo_editor,
         p_view = (caret_view (empty_block ''paragraph'') (JBool True))\<lparr>composing := True\<rparr>,
         p_state = caret_state (empty_block ''paragraph'') (JBool True),
         p_oldState = None\<rparr>"
    by (simp add: plugin_shouldShow_def demo_options_def demo_editor_def caret_view_def
        caret_state_def caret_in_def empty_block_def isEmptyParagraph_def)
  show ?thesis
    using a b c d e
      update_skips
        [of "(caret_view (empty_block ''paragraph'') (JBool True))\<lparr>composing := True\<rparr>"
            demo_controller demo_instance None]
      update_skips
        [of "caret_view (empty_block ''paragraph'') (JBool False)"
            shown_controller demo_instance None]
    by simp
qed

section \<open>Blur handling\<close>

text \<open>
  C4. The blur handler: if \<open>preventHide\<close> is set, the blur resets it and does nothing
  else. Otherwise, if the related target is contained in the overlay host (the parent
  node of the menu element), or is the DOM element of the editor's view, nothing
  happens. Otherwise \<open>hide\<close> is called, which the overlay instance receives when it
  exists. A mousedown on the menu element followed by a blur, whatever its related
  target, leaves \<open>preventHide\<close> false, sends nothing to the overlay instance and leaves
  \<open>visible\<close> as it was.
\<close>

theorem blur_handler_cases:
  "(preventHide s \<longrightarrow> blurHandler d ev s = s\<lparr>preventHide := False\<rparr>)
   \<and> (\<not> preventHide s \<and> ev = Some e \<and> relatedTarget e = Some t
        \<and> parentNode d (node_id (element s)) = Some p \<and> contains d p t \<longrightarrow>
        blurHandler d ev s = s)
   \<and> (\<not> preventHide s \<and> ev = Some e
        \<and> relatedTarget e = Some (view_dom (editor_view (editor s))) \<longrightarrow>
        blurHandler d ev s = s)
   \<and> (\<not> preventHide s
        \<and> (\<forall>e' t'. ev = Some e' \<and> relatedTarget e' = Some t' \<longrightarrow>
              t' \<noteq> view_dom (editor_view (editor s))
              \<and> (\<forall>p'. parentNode d (node_id (element s)) = Some p' \<longrightarrow> \<not> contains d p' t')) \<longrightarrow>
        blurHandler d ev s = hide s
        \<and> (\<forall>i. tippy s = Some i \<longrightarrow>
              tippy (blurHandler d ev s) = Some (i\<lparr>calls := calls i @ [Call_hide]\<rparr>)))
   \<and> \<not> preventHide (blurHandler d ev (mousedownHandler s))
   \<and> tippy (blurHandler d ev (mousedownHandler s)) = tippy s
   \<and> visible (blurHandler d ev (mousedownHandler s)) = visible s"
proof (intro conjI)
  show "preventHide s \<longrightarrow> blurHandler d ev s = s\<lparr>preventHide := False\<rparr>"
    by (simp add: blurHandler_def)
  show "\<not> preventHide s \<and> ev = Some e \<and> relatedTarget e = Some t
        \<and> parentNode d (node_id (element s)) = Some p \<and> contains d p t \<longrightarrow>
        blurHandler d ev s = s"
    by (simp add: blurHandler_def)
  show "\<not> preventHide s \<and> ev = Some e
        \<and> relatedTarget e = Some (view_dom (editor_view (editor s))) \<longrightarrow>
        blurHandler d ev s = s"
    by (simp add: blurHandler_def)
  show "\<not> preventHide s
        \<and> (\<forall>e' t'. ev = Some e' \<and> relatedTarget e' = Some t' \<longrightarrow>
              t' \<noteq> view_dom (editor_view (editor s))
              \<and> (\<forall>p'. parentNode d (node_id (element s)) = Some p' \<longrightarrow> \<not> contains d p' t')) \<longrightarrow>
        blurHandler d ev s = hide s
        \<and> (\<forall>i. tippy s = Some i \<longrightarrow>
              tippy (blurHandler d ev s) = Some (i\<lparr>calls := calls i @ [Call_hide]\<rparr>))"
    by (auto simp: blurHandler_def hide_def split: option.splits)
  show "\<not> preventHide (blurHandler d ev (mousedownHandler s))"
    by (simp add: blurHandler_def mousedownHandler_def)
  show "tippy (blurHandler d ev (mousedownHandler s)) = tippy s"
    by (simp add: blurHandler_def mousedownHandler_def)
  show "visible (blurHandler d ev (mousedownHandler s)) = visible s"
    by (simp add: blurHandler_def mousedownHandler_def)
qed

theorem blur_handler_cases_witness:
  "\<not> preventHide (blurHandler demo_dom (Some \<lparr>relatedTarget = Some 9\<rparr>)
                    (mousedownHandler shown_controller))
   \<and> tippy (blurHandler demo_dom (Some \<lparr>relatedTarget = Some 9\<rparr>)
              (mousedownHandler shown_controller))
      = Some \<lparr>calls = [Call_setProps (PosToDOMRect 1 1), Call_show],
              popper_firstChild = Some [(''blur'', H_tippyBlur, False)]\<rparr>
   \<and> tippy (blurHandler demo_dom (Some \<lparr>relatedTarget = Some 9\<rparr>) shown_controller)
      = Some \<lparr>calls = [Call_setProps (PosToDOMRect 1 1), Call_show, Call_hide],
              popper_firstChild = Some [(''blur'', H_tippyBlur, False)]\<rparr>
   \<and> blurHandler demo_dom (Some \<lparr>relatedTarget = Some 3\<rparr>) shown_controller = shown_controller
   \<and> blurHandler demo_dom (Some \<lparr>relatedTarget = Some 0\<rparr>) shown_controller = shown_controller
   \<and> blurHandler demo_dom (Some \<lparr>relatedTarget = Some 9\<rparr>)
        (shown_controller\<lparr>preventHide := True\<rparr>)
      = shown_controller\<lparr>preventHide := False\<rparr>"
proof -
  note f = shown_controller_eval
  note t = shown_controller_eval
  have dom1: "parentNode demo_dom 1 = Some 2" "contains demo_dom 2 3" "\<not> contains demo_dom 2 9"
    by (simp_all add: demo_dom_def)
  have seq:
    "\<not> preventHide (blurHandler demo_dom (Some \<lparr>relatedTarget = Some 9\<rparr>)
                       (mousedownHandler shown_controller))
     \<and> tippy (blurHandler demo_dom (Some \<lparr>relatedTarget = Some 9\<rparr>)
                (mousedownHandler shown_controller)) = tippy shown_controller"
    using blur_handler_cases
      [where s = shown_controller and d = demo_dom and ev = "Some \<lparr>relatedTarget = Some 9\<rparr>"]
    by blast
  have unrelated:
    "tippy (blurHandler demo_dom (Some \<lparr>relatedTarget = Some 9\<rparr>) shown_controller)
       = Some (\<lparr>calls = [Call_setProps (PosToDOMRect 1 1), Call_show],
                popper_firstChild = Some [(''blur'', H_tippyBlur, False)]\<rparr>
               \<lparr>calls := [Call_setProps (PosToDOMRect 1 1), Call_show] @ [Call_hide]\<rparr>)"
    using f t dom1
      blur_handler_cases
        [where s = shown_controller and d = demo_dom and ev = "Some \<lparr>relatedTarget = Some 9\<rparr>"
           and e = "\<lparr>relatedTarget = Some 9\<rparr>" and t = 9 and p = 2]
    by (simp add: hide_def)
  have inside:
    "blurHandler demo_dom (Some \<lparr>relatedTarget = Some 3\<rparr>) shown_controller = shown_controller"
    using f dom1
      blur_handler_cases
        [where s = shown_controller and d = demo_dom and ev = "Some \<lparr>relatedTarget = Some 3\<rparr>"
           and e = "\<lparr>relatedTarget = Some 3\<rparr>" and t = 3 and p = 2]
    by simp
  have view:
    "blurHandler demo_dom (Some \<lparr>relatedTarget = Some 0\<rparr>) shown_controller = shown_controller"
    using f
      blur_handler_cases
        [where s = shown_controller and d = demo_dom and ev = "Some \<lparr>relatedTarget = Some 0\<rparr>"
           and e = "\<lparr>relatedTarget = Some 0\<rparr>" and t = 0 and p = 2]
    by simp
  have consumed:
    "blurHandler demo_dom (Some \<lparr>relatedTarget = Some 9\<rparr>)
        (shown_controller\<lparr>preventHide := True\<rparr>)
      = shown_controller\<lparr>preventHide := False\<rparr>"
    using blur_handler_cases
      [where s = "shown_controller\<lparr>preventHide := True\<rparr>" and d = demo_dom
         and ev = "Some \<lparr>relatedTarget = Some 9\<rparr>"
         and e = "\<lparr>relatedTarget = Some 9\<rparr>" and t = 9 and p = 2]
    by simp
  show ?thesis
    using seq unrelated inside view consumed t by simp
qed

section \<open>Teardown\<close>

text \<open>
  C8. After \<open>destroy\<close> the mousedown and keydown listeners are off the menu element, the
  focus and blur hooks are off the editor, and \<open>preventHide\<close> and \<open>visible\<close> are false.
  An existing overlay instance receives \<open>destroy\<close> and loses the blur listener on its
  rendered content; without an instance there is nothing to destroy. No step of
  \<open>destroy\<close> can raise, since every access to the instance is guarded; the function is
  total. A second \<open>destroy\<close> leaves everything as the first left it, except that an
  existing instance receives \<open>destroy\<close> once more; without an instance it is the
  identity on the destroyed controller.
\<close>

theorem destroy_teardown:
  "(''mousedown'', H_mousedown, True) \<notin> set (listeners (element (destroy s)))
   \<and> (''keydown'', H_keydown, False) \<notin> set (listeners (element (destroy s)))
   \<and> (''focus'', H_focus) \<notin> set (callbacks (editor (destroy s)))
   \<and> (''blur'', H_blur) \<notin> set (callbacks (editor (destroy s)))
   \<and> \<not> preventHide (destroy s)
   \<and> \<not> visible (destroy s)
   \<and> (tippy s = Some t \<longrightarrow>
        tippy (destroy s)
          = Some \<lparr>calls = calls t @ [Call_destroy],
                  popper_firstChild =
                    map_option (\<lambda>ls. removeEventListener ls (''blur'', H_tippyBlur, False))
                      (popper_firstChild t)\<rparr>)
   \<and> (tippy (destroy s) = Some t' \<and> popper_firstChild t' = Some ls' \<longrightarrow>
        (''blur'', H_tippyBlur, False) \<notin> set ls')
   \<and> (tippy s = None \<longrightarrow> tippy (destroy s) = None)
   \<and> destroy (destroy s)
        = (destroy s)\<lparr>tippy := map_option (\<lambda>i. i\<lparr>calls := calls i @ [Call_destroy]\<rparr>)
                                   (tippy (destroy s))\<rparr>
   \<and> (tippy s = None \<longrightarrow> destroy (destroy s) = destroy s)"
proof (intro conjI)
  show "(''mousedown'', H_mousedown, True) \<notin> set (listeners (element (destroy s)))"
    by (simp add: destroy_def removeEventListener_def Let_def)
  show "(''keydown'', H_keydown, False) \<notin> set (listeners (element (destroy s)))"
    by (simp add: destroy_def removeEventListener_def Let_def)
  show "(''focus'', H_focus) \<notin> set (callbacks (editor (destroy s)))"
    by (simp add: destroy_def editor_off_def Let_def)
  show "(''blur'', H_blur) \<notin> set (callbacks (editor (destroy s)))"
    by (simp add: destroy_def editor_off_def Let_def)
  show "\<not> preventHide (destroy s)"
    by (simp add: destroy_def Let_def)
  show "\<not> visible (destroy s)"
    by (simp add: destroy_def Let_def)
  show "tippy s = Some t \<longrightarrow>
        tippy (destroy s)
          = Some \<lparr>calls = calls t @ [Call_destroy],
                  popper_firstChild =
                    map_option (\<lambda>ls. removeEventListener ls (''blur'', H_tippyBlur, False))
                      (popper_firstChild t)\<rparr>"
    by (cases t) (simp add: destroy_def Let_def split: option.splits)
  show "tippy (destroy s) = Some t' \<and> popper_firstChild t' = Some ls' \<longrightarrow>
        (''blur'', H_tippyBlur, False) \<notin> set ls'"
    by (auto simp: destroy_def removeEventListener_def Let_def split: option.splits)
  show "tippy s = None \<longrightarrow> tippy (destroy s) = None"
    by (simp add: destroy_def Let_def)
  show "destroy (destroy s)
        = (destroy s)\<lparr>tippy := map_option (\<lambda>i. i\<lparr>calls := calls i @ [Call_destroy]\<rparr>)
                                   (tippy (destroy s))\<rparr>"
    by (cases "tippy s")
      (simp_all add: destroy_def editor_off_def removeEventListener_def Let_def
        split: option.splits)
  show "tippy s = None \<longrightarrow> destroy (destroy s) = destroy s"
    by (simp add: destroy_def editor_off_def removeEventListener_def Let_def)
qed

theorem destroy_teardown_witness:
  "tippy demo_controller = None
   \<and> listeners (element demo_controller)
       = [(''mousedown'', H_mousedown, True), (''keydown'', H_keydown, False)]
   \<and> callbacks (editor demo_controller) = [(''focus'', H_focus), (''blur'', H_blur)]
   \<and> listeners (element (destroy demo_controller)) = []
   \<and> callbacks (editor (destroy demo_controller)) = []
   \<and> tippy (destroy demo_controller) = None
   \<and> destroy (destroy demo_controller) = destroy demo_controller
   \<and> tippy (destroy shown_controller)
       = Some \<lparr>calls = [Call_setProps (PosToDOMRect 1 1), Call_show, Call_destroy],
               popper_firstChild = Some []\<rparr>
   \<and> \<not> visible (destroy shown_controller)
   \<and> listeners (element (destroy (destroy shown_controller))) = []
   \<and> callbacks (editor (destroy (destroy shown_controller))) = []"
proof -
  note d = demo_controller_eval
  note sh = shown_controller_eval
  have never_created:
    "tippy (destroy demo_controller) = None
     \<and> destroy (destroy demo_controller) = destroy demo_controller"
    using d destroy_teardown [where s = demo_controller] by blast
  have created:
    "tippy (destroy shown_controller)
       = Some \<lparr>calls = [Call_setProps (PosToDOMRect 1 1), Call_show, Call_destroy],
               popper_firstChild = Some []\<rparr>
     \<and> \<not> visible (destroy shown_controller)"
    using sh
      destroy_teardown
        [where s = shown_controller
           and t = "\<lparr>calls = [Call_setProps (PosToDOMRect 1 1), Call_show],
                     popper_firstChild = Some [(''blur'', H_tippyBlur, False)]\<rparr>"]
    by (simp add: removeEventListener_def)
  have l1: "listeners (element (destroy demo_controller)) = []"
    using d by (simp add: destroy_def removeEventListener_def Let_def)
  have l2: "callbacks (editor (destroy demo_controller)) = []"
    using d by (simp add: destroy_def editor_off_def Let_def)
  have l3: "listeners (element (destroy (destroy shown_controller))) = []"
    using sh by (simp add: destroy_def removeEventListener_def Let_def)
  have l4: "callbacks (editor (destroy (destroy shown_controller))) = []"
    using sh by (simp add: destroy_def editor_off_def Let_def)
  show ?thesis
    using d never_created created l1 l2 l3 l4 by simp
qed

section \<open>Keyboard shortcuts\<close>

text \<open>
  C7, amended. The open key: when a command context exists and the end of the selection
  sits in an empty paragraph (type \<open>paragraph\<close>, content size 0, empty serialization), the
  shortcut invokes \<open>setFloatMenu(true)\<close> and returns true; otherwise it returns false and
  invokes nothing. The close key: when a command context exists, the shortcut invokes
  \<open>setFloatMenu(false)\<close> and returns true. \<open>setFloatMenu\<close> always returns true and, when
  a dispatch function is supplied, dispatches a transaction that carries its argument
  under the plugin key.
\<close>

theorem shortcuts_amended:
  "(cp_editor props = Some ed
      \<and> isEmptyParagraph (dollar_to (selection (cp_state props))) ed \<longrightarrow>
      shortcut_Space props = (True, [Commands_setFloatMenu True]))
   \<and> (cp_editor props = Some ed
      \<and> \<not> isEmptyParagraph (dollar_to (selection (cp_state props))) ed \<longrightarrow>
      shortcut_Space props = (False, []))
   \<and> (cp_editor props = None \<longrightarrow> shortcut_Space props = (False, []))
   \<and> (cp_editor props = Some ed \<longrightarrow>
      shortcut_Escape props = (True, [Commands_setFloatMenu False]))
   \<and> (cp_editor props = None \<longrightarrow> shortcut_Escape props = (False, []))
   \<and> fst (setFloatMenu vis props)
   \<and> (cp_dispatch props \<longrightarrow>
        (\<exists>tr. snd (setFloatMenu vis props) = Some tr
           \<and> getMeta tr floatingMenuKey = JBool vis))
   \<and> (\<not> cp_dispatch props \<longrightarrow> snd (setFloatMenu vis props) = None)"
  by (simp add: shortcut_Space_def shortcut_Escape_def setFloatMenu_def setMeta_def getMeta_def)

theorem shortcuts_amended_witness:
  "cp_editor (command_props_in (empty_block ''paragraph'')) = Some demo_editor
   \<and> isEmptyParagraph
       (dollar_to (selection (cp_state (command_props_in (empty_block ''paragraph'')))))
       demo_editor
   \<and> shortcut_Space (command_props_in (empty_block ''paragraph''))
       = (True, [Commands_setFloatMenu True])
   \<and> shortcut_Escape (command_props_in (empty_block ''paragraph''))
       = (True, [Commands_setFloatMenu False])
   \<and> cp_editor (command_props_in (empty_block ''heading'')) = Some demo_editor
   \<and> \<not> isEmptyParagraph
       (dollar_to (selection (cp_state (command_props_in (empty_block ''heading'')))))
       demo_editor
   \<and> shortcut_Space (command_props_in (empty_block ''heading'')) = (False, [])
   \<and> cp_dispatch (command_props_in (empty_block ''paragraph''))
   \<and> fst (setFloatMenu True (command_props_in (empty_block ''paragraph'')))"
proof -
  have p:
    "cp_editor (command_props_in (empty_block ''paragraph'')) = Some demo_editor
     \<and> isEmptyParagraph
         (dollar_to (selection (cp_state (command_props_in (empty_block ''paragraph'')))))
         demo_editor
     \<and> cp_dispatch (command_props_in (empty_block ''paragraph''))"
    by (simp add: command_props_in_def isEmptyParagraph_def demo_editor_def caret_state_def
        caret_in_def empty_block_def)
  have h:
    "cp_editor (command_props_in (empty_block ''heading'')) = Some demo_editor
     \<and> \<not> isEmptyParagraph
         (dollar_to (selection (cp_state (command_props_in (empty_block ''heading'')))))
         demo_editor"
    by (simp add: command_props_in_def isEmptyParagraph_def demo_editor_def caret_state_def
        caret_in_def empty_block_def)
  show ?thesis
    using p h
      shortcuts_amended
        [where props = "command_props_in (empty_block ''paragraph'')" and ed = demo_editor
           and vis = True]
      shortcuts_amended
        [where props = "command_props_in (empty_block ''heading'')" and ed = demo_editor
           and vis = True]
    by simp
qed

text \<open>
  C7 as stated does not hold. With the end of the selection in an empty heading, which
  is an empty eligible textblock in the specified sense, the open key returns false and
  does not invoke \<open>setFloatMenu\<close>.
\<close>

theorem space_shortcut_rejects_heading:
  "caret_context_spec demo_editor
     (dollar_to (selection (cp_state (command_props_in (empty_block ''heading'')))))
   \<and> shortcut_Space (command_props_in (empty_block ''heading'')) = (False, [])"
  by (simp add: caret_context_spec_def shortcut_Space_def command_props_in_def
      isEmptyParagraph_def demo_editor_def caret_state_def caret_in_def empty_block_def)

end
